theory Spec2Isabelle
  imports Main
begin

section \<open>The Relay request descriptor of \<open>DatasetQuery\<close>\<close>

text \<open>
  The second half of \<^verbatim>\<open>GroupContextProvider.tsx\<close> is the artifact the Relay compiler
  generated for the query \<open>DatasetQuery\<close>: two TypeScript type declarations and one object
  literal of type \<open>ConcreteRequest\<close>. The object literal is embedded as a value of the
  types below; the tag \<open>kind\<close> of a selection or argument becomes the constructor, a
  field that is \<open>null\<close> in the literal and nullable in Relay's typing becomes \<open>None\<close>,
  and the constructor arguments keep the key order of the literal.
\<close>

subsection \<open>Data model\<close>

text \<open>Values of fields that Relay types as \<open>mixed\<close>: only \<open>null\<close> and \<open>{}\<close> occur.\<close>

datatype js_value = JNull | JObject "(string \<times> js_value) list"

text \<open>\<^verbatim>\<open>{"kind": "Variable", "name": n, "variableName": v}\<close>\<close>

datatype argument = Variable string string

text \<open>\<^verbatim>\<open>{"defaultValue": d, "kind": "LocalArgument", "name": n}\<close>\<close>

datatype argument_definition = LocalArgument js_value string

text \<open>
  \<^verbatim>\<open>ScalarField\<close>: alias, args, name, storageKey.
  \<^verbatim>\<open>LinkedField\<close>: alias, args, concreteType, name, plural, selections, storageKey.
\<close>

datatype selection =
    ScalarField "string option" "argument list option" string "string option"
  | LinkedField "string option" "argument list option" string string bool
      "selection list" "string option"

record NormalizationOperation =
  argumentDefinitions :: "argument_definition list"
  kind :: string
  name :: string
  selections :: "selection list"

record ReaderFragment =
  argumentDefinitions :: "argument_definition list"
  kind :: string
  metadata :: js_value
  name :: string
  selections :: "selection list"
  type :: string
  abstractKey :: "string option"

record RequestParameters =
  cacheID :: string
  request_id :: js_value
  metadata :: js_value
  name :: string
  operationKind :: string
  "text" :: string

record ConcreteRequest =
  fragment :: ReaderFragment
  kind :: string
  operation :: NormalizationOperation
  params :: RequestParameters


subsection \<open>The generated TypeScript types\<close>

text \<open>
  A property is written \<open>name: T\<close> (\<open>Required\<close>), \<open>name?: T\<close> (\<open>Optional\<close>) or
  \<open>readonly name: T\<close> (\<open>Readonly\<close>).
\<close>

datatype prop_modifier = Required | Optional | Readonly

datatype ts_type =
    TString
  | TNumber
  | TNull
  | TArray
  | TLiteral string
  | TRef string
  | TUnion "ts_type list"
  | TReadonlyArray ts_type
  | TObject "(string \<times> prop_modifier \<times> ts_type) list"

definition MediaType :: ts_type where
  "MediaType = TUnion [TLiteral ''image'', TLiteral ''video'', TLiteral ''%future added value'']"

definition DatasetQuery_variables :: ts_type where
  "DatasetQuery_variables = TObject
     [(''name'', Required, TString),
      (''view'', Optional, TUnion [TArray, TNull])]"

definition DatasetQuery_data :: ts_type where
  "DatasetQuery_data = TObject
     [(''dataset'', Readonly, TUnion [TObject
        [(''id'', Readonly, TString),
         (''name'', Readonly, TString),
         (''mediaType'', Readonly, TUnion [TRef ''MediaType'', TNull]),
         (''sampleFields'', Readonly, TReadonlyArray (TObject
            [(''ftype'', Readonly, TString),
             (''subfield'', Readonly, TUnion [TString, TNull]),
             (''embeddedDocType'', Readonly, TUnion [TString, TNull]),
             (''path'', Readonly, TString),
             (''dbField'', Readonly, TUnion [TString, TNull])])),
         (''frameFields'', Readonly, TReadonlyArray (TObject
            [(''ftype'', Readonly, TString),
             (''subfield'', Readonly, TUnion [TString, TNull]),
             (''embeddedDocType'', Readonly, TUnion [TString, TNull]),
             (''path'', Readonly, TString),
             (''dbField'', Readonly, TUnion [TString, TNull])])),
         (''appSidebarGroups'', Readonly, TUnion [TReadonlyArray (TObject
            [(''name'', Readonly, TString),
             (''paths'', Readonly, TReadonlyArray TString)]), TNull]),
         (''maskTargets'', Readonly, TReadonlyArray (TObject
            [(''name'', Readonly, TString),
             (''targets'', Readonly, TReadonlyArray (TObject
                [(''target'', Readonly, TNumber),
                 (''value'', Readonly, TString)]))])),
         (''defaultMaskTargets'', Readonly, TUnion [TReadonlyArray (TObject
            [(''target'', Readonly, TNumber),
             (''value'', Readonly, TString)]), TNull]),
         (''evaluations'', Readonly, TReadonlyArray (TObject
            [(''key'', Readonly, TString),
             (''version'', Readonly, TString),
             (''timestamp'', Readonly, TString),
             (''viewStages'', Readonly, TReadonlyArray TString),
             (''config'', Readonly, TObject
                [(''cls'', Readonly, TString),
                 (''predField'', Readonly, TString),
                 (''gtField'', Readonly, TString)])])),
         (''brainMethods'', Readonly, TReadonlyArray (TObject
            [(''key'', Readonly, TString),
             (''version'', Readonly, TString),
             (''timestamp'', Readonly, TString),
             (''viewStages'', Readonly, TReadonlyArray TString),
             (''config'', Readonly, TObject
                [(''cls'', Readonly, TString),
                 (''embeddingsField'', Readonly, TUnion [TString, TNull]),
                 (''method'', Readonly, TString),
                 (''patchesField'', Readonly, TUnion [TString, TNull])])])),
         (''lastLoadedAt'', Readonly, TString),
         (''createdAt'', Readonly, TString),
         (''version'', Readonly, TString)], TNull])]"

subsection \<open>The descriptor\<close>

text \<open>The local bindings \<open>v0\<close> .. \<open>v9\<close> of the generated function, in its order.\<close>

definition v0 :: "argument_definition list" where
  "v0 = [LocalArgument JNull ''name'', LocalArgument JNull ''view'']"

definition v1 :: selection where
  "v1 = ScalarField None None ''name'' None"

definition v2 :: "selection list" where
  "v2 = [ScalarField None None ''ftype'' None,
         ScalarField None None ''subfield'' None,
         ScalarField None None ''embeddedDocType'' None,
         ScalarField None None ''path'' None,
         ScalarField None None ''dbField'' None]"

definition v3 :: "selection list" where
  "v3 = [ScalarField None None ''target'' None,
         ScalarField None None ''value'' None]"

definition v4 :: selection where
  "v4 = ScalarField None None ''key'' None"

definition v5 :: selection where
  "v5 = ScalarField None None ''version'' None"

definition v6 :: selection where
  "v6 = ScalarField None None ''timestamp'' None"

definition v7 :: selection where
  "v7 = ScalarField None None ''viewStages'' None"

definition v8 :: selection where
  "v8 = ScalarField None None ''cls'' None"

definition v9 :: "selection list" where
  "v9 = [LinkedField None
           (Some [Variable ''name'' ''name'', Variable ''view'' ''view''])
           ''Dataset'' ''dataset'' False
           [ScalarField None None ''id'' None,
            v1,
            ScalarField None None ''mediaType'' None,
            LinkedField None None ''SampleField'' ''sampleFields'' True v2 None,
            LinkedField None None ''SampleField'' ''frameFields'' True v2 None,
            LinkedField None None ''SidebarGroup'' ''appSidebarGroups'' True
              [v1, ScalarField None None ''paths'' None] None,
            LinkedField None None ''NamedTargets'' ''maskTargets'' True
              [v1, LinkedField None None ''Target'' ''targets'' True v3 None] None,
            LinkedField None None ''Target'' ''defaultMaskTargets'' True v3 None,
            LinkedField None None ''EvaluationRun'' ''evaluations'' True
              [v4, v5, v6, v7,
               LinkedField None None ''EvaluationRunConfig'' ''config'' False
                 [v8,
                  ScalarField None None ''predField'' None,
                  ScalarField None None ''gtField'' None] None] None,
            LinkedField None None ''BrainRun'' ''brainMethods'' True
              [v4, v5, v6, v7,
               LinkedField None None ''BrainRunConfig'' ''config'' False
                 [v8,
                  ScalarField None None ''embeddingsField'' None,
                  ScalarField None None ''method'' None,
                  ScalarField None None ''patchesField'' None] None] None,
            ScalarField None None ''lastLoadedAt'' None,
            ScalarField None None ''createdAt'' None,
            v5]
           None]"

text \<open>
  The value \<open>node\<close> is initialised with: what the generated function returns when it is
  called. The function takes no parameter and its body mentions no identifier other than
  \<open>v0\<close> .. \<open>v9\<close>; the properties of an object literal are defined on the new object
  itself, whatever the environment holds.
\<close>

definition node :: ConcreteRequest where
  "node =
     \<lparr>fragment =
        \<lparr>ReaderFragment.argumentDefinitions = v0,
         ReaderFragment.kind = ''Fragment'',
         ReaderFragment.metadata = JNull,
         ReaderFragment.name = ''DatasetQuery'',
         ReaderFragment.selections = v9,
         type = ''Query'',
         abstractKey = None\<rparr>,
      kind = ''Request'',
      operation =
        \<lparr>NormalizationOperation.argumentDefinitions = v0,
         NormalizationOperation.kind = ''Operation'',
         NormalizationOperation.name = ''DatasetQuery'',
         NormalizationOperation.selections = v9\<rparr>,
      params =
        \<lparr>cacheID = ''33bb58955b13aadd3c3abc537b89af36'',
         request_id = JNull,
         metadata = JObject [],
         name = ''DatasetQuery'',
         operationKind = ''query'',
         text = ''query DatasetQuery(\<newline>  $name: String!\<newline>  $view: JSONArray\<newline>) {\<newline>  dataset(name: $name, view: $view) {\<newline>    id\<newline>    name\<newline>    mediaType\<newline>    sampleFields {\<newline>      ftype\<newline>      subfield\<newline>      embeddedDocType\<newline>      path\<newline>      dbField\<newline>    }\<newline>    frameFields {\<newline>      ftype\<newline>      subfield\<newline>      embeddedDocType\<newline>      path\<newline>      dbField\<newline>    }\<newline>    appSidebarGroups {\<newline>      name\<newline>      paths\<newline>    }\<newline>    maskTargets {\<newline>      name\<newline>      targets {\<newline>        target\<newline>        value\<newline>      }\<newline>    }\<newline>    defaultMaskTargets {\<newline>      target\<newline>      value\<newline>    }\<newline>    evaluations {\<newline>      key\<newline>      version\<newline>      timestamp\<newline>      viewStages\<newline>      config {\<newline>        cls\<newline>        predField\<newline>        gtField\<newline>      }\<newline>    }\<newline>    brainMethods {\<newline>      key\<newline>      version\<newline>      timestamp\<newline>      viewStages\<newline>      config {\<newline>        cls\<newline>        embeddingsField\<newline>        method\<newline>        patchesField\<newline>      }\<newline>    }\<newline>    lastLoadedAt\<newline>    createdAt\<newline>    version\<newline>  }\<newline>}\<newline>''\<rparr>\<rparr>"

subsection \<open>The assignment of \<open>hash\<close> and the environment\<close>

text \<open>
  The last statement before the export, \<^verbatim>\<open>(node as any).hash = "..."\<close>, is an
  assignment, and an assignment looks the property up along the prototype chain of the
  object. The object \<open>node\<close> has no property \<open>hash\<close> of its own and its prototype is
  \<open>Object.prototype\<close>, the end of the chain; so what the assignment does is decided by the
  property \<open>hash\<close> of \<open>Object.prototype\<close>, where the environment has defined one. The
  file is a module, hence strict code: an assignment that is refused throws a
  \<open>TypeError\<close>.
\<close>

datatype js_error = TypeError | Thrown












subsection \<open>Reading a selection set\<close>

fun field_name :: "selection \<Rightarrow> string" where
  "field_name (ScalarField alias args n storageKey) = n"
| "field_name (LinkedField alias args concreteType n plural sels storageKey) = n"

text \<open>A scalar field has no \<open>selections\<close> key; it selects nothing below itself.\<close>

fun field_selections :: "selection \<Rightarrow> selection list" where
  "field_selections (ScalarField alias args n storageKey) = []"
| "field_selections (LinkedField alias args concreteType n plural sels storageKey) = sels"

fun field_args :: "selection \<Rightarrow> argument list" where
  "field_args (ScalarField alias args n storageKey) = (case args of None \<Rightarrow> [] | Some as \<Rightarrow> as)"
| "field_args (LinkedField alias args concreteType n plural sels storageKey) =
     (case args of None \<Rightarrow> [] | Some as \<Rightarrow> as)"

fun is_scalar :: "selection \<Rightarrow> bool" where
  "is_scalar (ScalarField alias args n storageKey) = True"
| "is_scalar (LinkedField alias args concreteType n plural sels storageKey) = False"

definition selected_names :: "selection list \<Rightarrow> string list" where
  "selected_names sels = map field_name sels"

text \<open>The first selection of the given name, as a reader looks a field up.\<close>

fun find_field :: "string \<Rightarrow> selection list \<Rightarrow> selection option" where
  "find_field n [] = None"
| "find_field n (s # sels) = (if field_name s = n then Some s else find_field n sels)"

text \<open>The selection set reached by following field names from the root.\<close>

fun select_path :: "string list \<Rightarrow> selection list \<Rightarrow> selection list option" where
  "select_path [] sels = Some sels"
| "select_path (n # ns) sels =
     (case find_field n sels of
        None \<Rightarrow> None
      | Some s \<Rightarrow> select_path ns (field_selections s))"

fun argument_definition_name :: "argument_definition \<Rightarrow> string" where
  "argument_definition_name (LocalArgument defaultValue n) = n"

fun argument_definition_default :: "argument_definition \<Rightarrow> js_value" where
  "argument_definition_default (LocalArgument defaultValue n) = defaultValue"

fun variable_name :: "argument \<Rightarrow> string" where
  "variable_name (Variable n v) = v"

text \<open>Every variable a selection set mentions, at any depth.\<close>

fun used_variables :: "selection \<Rightarrow> string list" where
  "used_variables (ScalarField alias args n storageKey) =
     map variable_name (case args of None \<Rightarrow> [] | Some as \<Rightarrow> as)"
| "used_variables (LinkedField alias args concreteType n plural sels storageKey) =
     map variable_name (case args of None \<Rightarrow> [] | Some as \<Rightarrow> as)
       @ concat (map used_variables sels)"

text \<open>The names a selection set selects, as a tree.\<close>

datatype name_tree = Leaf string | Branch string "name_tree list"

fun selection_shape :: "selection \<Rightarrow> name_tree" where
  "selection_shape (ScalarField alias args n storageKey) = Leaf n"
| "selection_shape (LinkedField alias args concreteType n plural sels storageKey) =
     Branch n (map selection_shape sels)"

text \<open>Every path of field names from the root of a selection set.\<close>

fun field_paths :: "selection \<Rightarrow> string list list" where
  "field_paths (ScalarField alias args n storageKey) = [[n]]"
| "field_paths (LinkedField alias args concreteType n plural sels storageKey) =
     [n] # map ((#) n) (concat (map field_paths sels))"

subsection \<open>Reading a TypeScript type\<close>

text \<open>
  The properties of an object type, seen through \<open>T | null\<close> and \<open>ReadonlyArray<T>\<close>;
  a type that is no object has none.
\<close>

fun properties :: "ts_type \<Rightarrow> (string \<times> prop_modifier \<times> ts_type) list" where
  "properties (TObject ps) = ps"
| "properties (TUnion ts) = concat (map properties ts)"
| "properties (TReadonlyArray t) = properties t"
| "properties t = []"

definition property_names :: "ts_type \<Rightarrow> string list" where
  "property_names t = map fst (properties t)"

fun find_property :: "string \<Rightarrow> (string \<times> prop_modifier \<times> ts_type) list \<Rightarrow> (prop_modifier \<times> ts_type) option" where
  "find_property n [] = None"
| "find_property n ((m, p) # ps) = (if m = n then Some p else find_property n ps)"

fun type_path :: "string list \<Rightarrow> ts_type \<Rightarrow> ts_type option" where
  "type_path [] t = Some t"
| "type_path (n # ns) t =
     (case find_property n (properties t) of
        None \<Rightarrow> None
      | Some (m, t') \<Rightarrow> type_path ns t')"

text \<open>Whether \<open>null\<close> is a member of the type.\<close>

fun nullable :: "ts_type \<Rightarrow> bool" where
  "nullable TNull = True"
| "nullable (TUnion ts) = list_ex nullable ts"
| "nullable t = False"

text \<open>The property names of a type as a tree; a property whose type has no properties is a leaf.\<close>

fun type_shape :: "ts_type \<Rightarrow> name_tree list" where
  "type_shape (TObject ps) =
     map (\<lambda>p. case type_shape (snd (snd p)) of
                [] \<Rightarrow> Leaf (fst p)
              | ts \<Rightarrow> Branch (fst p) ts) ps"
| "type_shape (TUnion ts) = concat (map type_shape ts)"
| "type_shape (TReadonlyArray t) = type_shape t"
| "type_shape t = []"

subsection \<open>Printing a request as GraphQL text\<close>

text \<open>
  The query text of the descriptor is what is sent to the server, the selections are what
  the client normalises and reads. The printer below writes a selection set in the layout
  of the generated text (one field a line, two spaces a level), so that the two can be
  compared. The types of the variables are not part of the selections; the printer takes
  them as a list of name and GraphQL type.
\<close>

definition indent :: "nat \<Rightarrow> string" where
  "indent d = replicate (2 * d) CHR '' ''"

fun print_argument :: "argument \<Rightarrow> string" where
  "print_argument (Variable n v) = n @ '': $'' @ v"

fun join :: "string \<Rightarrow> string list \<Rightarrow> string" where
  "join sep [] = []"
| "join sep [x] = x"
| "join sep (x # y # ys) = x @ sep @ join sep (y # ys)"

definition print_arguments :: "argument list option \<Rightarrow> string" where
  "print_arguments args =
     (case args of
        None \<Rightarrow> []
      | Some as \<Rightarrow> ''('' @ join '', '' (map print_argument as) @ '')'')"

fun print_selection :: "nat \<Rightarrow> selection \<Rightarrow> string" where
  "print_selection d (ScalarField alias args n storageKey) =
     indent d @ n @ print_arguments args @ ''\<newline>''"
| "print_selection d (LinkedField alias args concreteType n plural sels storageKey) =
     indent d @ n @ print_arguments args @ '' {\<newline>''
       @ concat (map (print_selection (Suc d)) sels)
       @ indent d @ ''}\<newline>''"

definition print_variable :: "string \<times> string \<Rightarrow> string" where
  "print_variable v = indent 1 @ ''$'' @ fst v @ '': '' @ snd v @ ''\<newline>''"

definition print_request :: "(string \<times> string) list \<Rightarrow> ('a ConcreteRequest_scheme) \<Rightarrow> string" where
  "print_request variables r =
     operationKind (params r) @ '' '' @ NormalizationOperation.name (operation r) @ ''(\<newline>''
       @ concat (map print_variable variables)
       @ '') {\<newline>''
       @ concat (map (print_selection 1) (NormalizationOperation.selections (operation r)))
       @ ''}\<newline>''"

text \<open>A GraphQL type is non-null exactly when it is written with a trailing \<open>!\<close>.\<close>

definition non_null :: "string \<Rightarrow> bool" where
  "non_null t = (t \<noteq> [] \<and> last t = CHR ''!'')"

text \<open>The names selected at a path of the operation, of the fragment, and declared by a type.\<close>

definition operation_fields :: "string list \<Rightarrow> 'a ConcreteRequest_scheme \<Rightarrow> string list option" where
  "operation_fields path r =
     map_option selected_names (select_path path (NormalizationOperation.selections (operation r)))"

definition fragment_fields :: "string list \<Rightarrow> 'a ConcreteRequest_scheme \<Rightarrow> string list option" where
  "fragment_fields path r =
     map_option selected_names (select_path path (ReaderFragment.selections (fragment r)))"

definition type_fields :: "string list \<Rightarrow> ts_type \<Rightarrow> string list option" where
  "type_fields path t = map_option property_names (type_path path t)"

definition type_modifiers :: "string list \<Rightarrow> ts_type \<Rightarrow> prop_modifier list option" where
  "type_modifiers path t = map_option (\<lambda>t'. map (fst \<circ> snd) (properties t')) (type_path path t)"

subsection \<open>The spec's enumerations\<close>

text \<open>
  The fields of the dataset object as the spec lists them: dataset id, name and media type,
  sample and frame field schemas, sidebar field groupings, named and default mask-target
  value maps, and the lists of evaluation and brain-method run metadata.
\<close>

definition spec_dataset_fields :: "string list" where
  "spec_dataset_fields =
     [''id'', ''name'', ''mediaType'', ''sampleFields'', ''frameFields'', ''appSidebarGroups'',
      ''maskTargets'', ''defaultMaskTargets'', ''evaluations'', ''brainMethods'']"

text \<open>
  The components of a schema field as the spec lists them: type, subfield,
  embedded-document-type and storage-path. The descriptor has two candidates for the last
  one, \<open>path\<close> and \<open>dbField\<close>; both readings are given.
\<close>

definition spec_field_components :: "string list" where
  "spec_field_components = [''ftype'', ''subfield'', ''embeddedDocType'', ''path'']"

definition spec_field_components_db :: "string list" where
  "spec_field_components_db = [''ftype'', ''subfield'', ''embeddedDocType'', ''dbField'']"

section \<open>The group context\<close>

text \<open>
  The first half of the file shares one callback with a subtree of React components. React
  itself is a library the file imports; what the file uses of it is modelled here: a context
  created with a default value, a provider element that binds a value for its children, and
  the hook that reads the binding of the nearest enclosing provider, or the default where
  there is none.
\<close>

subsection \<open>Data model\<close>

text \<open>
  A callback takes a looker and may change the state of the program; its result is
  \<open>None\<close> when it returns \<open>undefined\<close>.
\<close>

type_synonym ('l, 's, 'r) callback = "'l \<Rightarrow> 's \<Rightarrow> 'r option \<times> 's"

record ('l, 's, 'r) GroupContext =
  lookerRefCallback :: "('l, 's, 'r) callback"

text \<open>
  A React node: text, a host element with its children, the provider of \<open>groupContext\<close>
  with its value and children, or a function component, given as its body in terms of what
  \<open>useGroupContext()\<close> returns to it.
\<close>

datatype ('l, 's, 'r) element =
    Text string
  | Host string "('l, 's, 'r) element list"
  | Provider "('l, 's, 'r) GroupContext" "('l, 's, 'r) element list"
  | Component "('l, 's, 'r) GroupContext \<Rightarrow> ('l, 's, 'r) element"

text \<open>The props have the field of the context value and \<open>children\<close>.\<close>

record ('l, 's, 'r) GroupContextProviderProps = "('l, 's, 'r) GroupContext" +
  children :: "('l, 's, 'r) element list"

record 'a Context =
  defaultValue :: 'a

text \<open>What is on the screen after rendering.\<close>

datatype dom = DomText string | DomNode string "dom list"

subsection \<open>React's context\<close>

definition createContext :: "'a \<Rightarrow> 'a Context" where
  "createContext d = \<lparr>defaultValue = d\<rparr>"

text \<open>The second argument is the value of the nearest enclosing provider, if there is one.\<close>

definition useContext :: "'a Context \<Rightarrow> 'a option \<Rightarrow> 'a" where
  "useContext c nearest = (case nearest of None \<Rightarrow> defaultValue c | Some v \<Rightarrow> v)"

subsection \<open>The module\<close>

definition defaultOptions :: "('l, 's, 'r) GroupContext" where
  "defaultOptions = \<lparr>lookerRefCallback = (\<lambda>looker s. (None, s))\<rparr>"

definition groupContext :: "('l, 's, 'r) GroupContext Context" where
  "groupContext = createContext defaultOptions"

definition useGroupContext :: "('l, 's, 'r) GroupContext option \<Rightarrow> ('l, 's, 'r) GroupContext" where
  "useGroupContext nearest = useContext groupContext nearest"

definition GroupContextProvider ::
    "('l, 's, 'r, 'z) GroupContextProviderProps_scheme \<Rightarrow> ('l, 's, 'r) element" where
  "GroupContextProvider props =
     Provider \<lparr>lookerRefCallback = lookerRefCallback props\<rparr> (children props)"

subsection \<open>Rendering\<close>

text \<open>A provider adds no node of its own: its children are rendered under its value.\<close>

primrec render :: "('l, 's, 'r) GroupContext option \<Rightarrow> ('l, 's, 'r) element \<Rightarrow> dom list" where
  "render nearest (Text s) = [DomText s]"
| "render nearest (Host tag cs) = [DomNode tag (concat (map (render nearest) cs))]"
| "render nearest (Provider v cs) = concat (map (render (Some v)) cs)"
| "render nearest (Component c) = render nearest (c (useGroupContext nearest))"

text \<open>
  What \<open>useGroupContext()\<close> returns in each component rendered, in render order, with
  the number of providers of \<open>groupContext\<close> above the component (counted from \<open>d\<close>).
\<close>

primrec hook_values ::
    "nat \<Rightarrow> ('l, 's, 'r) GroupContext option \<Rightarrow> ('l, 's, 'r) element
      \<Rightarrow> (nat \<times> ('l, 's, 'r) GroupContext) list" where
  "hook_values d nearest (Text s) = []"
| "hook_values d nearest (Host tag cs) = concat (map (hook_values d nearest) cs)"
| "hook_values d nearest (Provider v cs) = concat (map (hook_values (Suc d) (Some v)) cs)"
| "hook_values d nearest (Component c) =
     (d, useGroupContext nearest) # hook_values d nearest (c (useGroupContext nearest))"

fun provider_parts ::
    "('l, 's, 'r) element \<Rightarrow> (('l, 's, 'r) GroupContext \<times> ('l, 's, 'r) element list) option" where
  "provider_parts (Provider v cs) = Some (v, cs)"
| "provider_parts e = None"

subsection \<open>Concrete trees\<close>

definition outer_callback :: "(nat, int, unit) callback" where
  "outer_callback looker s = (None, s + 1)"

definition inner_callback :: "(nat, int, unit) callback" where
  "inner_callback looker s = (None, s + 2)"

definition consumer :: "(nat, int, unit) element" where
  "consumer = Component (\<lambda>v. Text ''looker'')"

text \<open>A consumer directly below a provider, and one below a second provider inside the first.\<close>

definition nested_providers :: "(nat, int, unit) element" where
  "nested_providers =
     GroupContextProvider
       \<lparr>lookerRefCallback = outer_callback,
        children =
          [consumer,
           GroupContextProvider \<lparr>lookerRefCallback = inner_callback, children = [consumer]\<rparr>]\<rparr>"

definition no_provider :: "(nat, int, unit) element" where
  "no_provider = Host ''div'' [consumer]"

section \<open>Properties of the descriptor\<close>

lemmas binding_defs = v0_def v1_def v2_def v3_def v4_def v5_def v6_def v7_def v8_def v9_def

lemmas node_defs = node_def ConcreteRequest.defs

lemmas reader_defs = operation_fields_def fragment_fields_def type_fields_def type_modifiers_def
  selected_names_def property_names_def

lemma node_operation_selections:
  "NormalizationOperation.selections (operation node) = v9"
  by (simp add: node_defs)

lemma node_fragment_selections:
  "ReaderFragment.selections (fragment node) = v9"
  by (simp add: node_defs)

lemma node_text_printed:
  "text (params node) = print_request [(''name'', ''String!''), (''view'', ''JSONArray'')] node"
  by (simp add: print_request_def node_defs binding_defs print_variable_def print_arguments_def
      indent_def eval_nat_numeral)

text \<open>
  The response type and the selections agree: the property names of \<open>DatasetQuery$data\<close>
  form the same tree as the field names of the selections.
\<close>

lemma response_type_matches_selections:
  "type_shape DatasetQuery_data
     = map selection_shape (NormalizationOperation.selections (operation node))"
  by (simp add: node_operation_selections DatasetQuery_data_def binding_defs)

lemma set_differs: "x \<in> set xs \<Longrightarrow> x \<notin> set ys \<Longrightarrow> set xs \<noteq> set ys"
  by auto

lemma operation_fields_dataset:
  "operation_fields [''dataset''] node
     = Some (spec_dataset_fields @ [''lastLoadedAt'', ''createdAt'', ''version''])"
  by (simp add: reader_defs node_operation_selections binding_defs spec_dataset_fields_def)

lemma operation_fields_sampleFields:
  "operation_fields [''dataset'', ''sampleFields''] node
     = Some [''ftype'', ''subfield'', ''embeddedDocType'', ''path'', ''dbField'']"
  by (simp add: reader_defs node_operation_selections binding_defs)

lemma operation_fields_frameFields:
  "operation_fields [''dataset'', ''frameFields''] node
     = Some [''ftype'', ''subfield'', ''embeddedDocType'', ''path'', ''dbField'']"
  by (simp add: reader_defs node_operation_selections binding_defs)

text \<open>
  C1. The request takes exactly two arguments: both argument definition lists are
  \<open>name\<close> and \<open>view\<close>; the query text is the operation printed with the declarations
  \<open>$name: String!\<close> (non-null) and \<open>$view: JSONArray\<close> (nullable) and no other; the
  selections use these two variables and no other; and the variables type has the
  required string \<open>name\<close> and the optional, nullable array \<open>view\<close>.
\<close>

theorem DatasetQuery_arguments:
  "map argument_definition_name (NormalizationOperation.argumentDefinitions (operation node))
     = [''name'', ''view'']
   \<and> map argument_definition_name (ReaderFragment.argumentDefinitions (fragment node))
     = [''name'', ''view'']
   \<and> text (params node)
     = print_request [(''name'', ''String!''), (''view'', ''JSONArray'')] node
   \<and> non_null ''String!'' \<and> \<not> non_null ''JSONArray''
   \<and> concat (map used_variables (NormalizationOperation.selections (operation node)))
     = [''name'', ''view'']
   \<and> property_names DatasetQuery_variables = [''name'', ''view'']
   \<and> find_property ''name'' (properties DatasetQuery_variables) = Some (Required, TString)
   \<and> find_property ''view'' (properties DatasetQuery_variables)
     = Some (Optional, TUnion [TArray, TNull])
   \<and> nullable (TUnion [TArray, TNull])"
proof -
  have "map argument_definition_name v0 = [''name'', ''view'']"
    by (simp add: v0_def)
  moreover have "concat (map used_variables v9) = [''name'', ''view'']"
    by (simp add: binding_defs)
  moreover have "non_null ''String!'' \<and> \<not> non_null ''JSONArray''"
    by (simp add: non_null_def)
  moreover have "property_names DatasetQuery_variables = [''name'', ''view'']"
    by (simp add: property_names_def DatasetQuery_variables_def)
  moreover have "find_property ''name'' (properties DatasetQuery_variables) = Some (Required, TString)"
    by (simp add: DatasetQuery_variables_def)
  moreover have "find_property ''view'' (properties DatasetQuery_variables)
      = Some (Optional, TUnion [TArray, TNull])"
    by (simp add: DatasetQuery_variables_def)
  ultimately show ?thesis
    using node_text_printed
    by (simp add: node_operation_selections) (simp add: node_defs)
qed

text \<open>
  C2, as the claim states it, fails: the dataset selection set is not the set of fields the
  spec enumerates.
\<close>

theorem dataset_fields_counterexample:
  "\<not> (map_option set (operation_fields [''dataset''] node) = Some (set spec_dataset_fields))"
proof -
  have "''lastLoadedAt'' \<in> set (spec_dataset_fields @ [''lastLoadedAt'', ''createdAt'', ''version''])"
    by simp
  moreover have "''lastLoadedAt'' \<notin> set spec_dataset_fields"
    by (simp add: spec_dataset_fields_def)
  ultimately have "set (spec_dataset_fields @ [''lastLoadedAt'', ''createdAt'', ''version''])
      \<noteq> set spec_dataset_fields"
    by (rule set_differs)
  then show ?thesis
    by (simp only: operation_fields_dataset option.map option.inject not_False_eq_True)
qed

text \<open>
  C2, amended. The dataset selection set of the operation, of the fragment, and the
  properties of the dataset object in the response type are the ten fields the spec
  enumerates followed by \<open>lastLoadedAt\<close>, \<open>createdAt\<close> and \<open>version\<close>, and nothing else.
\<close>

theorem dataset_fields:
  "operation_fields [''dataset''] node
     = Some (spec_dataset_fields @ [''lastLoadedAt'', ''createdAt'', ''version''])
   \<and> fragment_fields [''dataset''] node
     = Some (spec_dataset_fields @ [''lastLoadedAt'', ''createdAt'', ''version''])
   \<and> type_fields [''dataset''] DatasetQuery_data
     = Some (spec_dataset_fields @ [''lastLoadedAt'', ''createdAt'', ''version''])
   \<and> distinct (spec_dataset_fields @ [''lastLoadedAt'', ''createdAt'', ''version''])"
  by (simp add: reader_defs node_operation_selections node_fragment_selections binding_defs
      spec_dataset_fields_def DatasetQuery_data_def)

text \<open>
  C3, as the claim states it, fails: the scalar fields selected for a schema field are not
  the four components of the spec, whichever of \<open>path\<close> and \<open>dbField\<close> is read as the
  storage path.
\<close>

theorem schema_field_components_counterexample:
  "\<not> (map_option set (operation_fields [''dataset'', ''sampleFields''] node)
        = Some (set spec_field_components))
   \<and> \<not> (map_option set (operation_fields [''dataset'', ''sampleFields''] node)
        = Some (set spec_field_components_db))
   \<and> \<not> (map_option set (operation_fields [''dataset'', ''frameFields''] node)
        = Some (set spec_field_components))
   \<and> \<not> (map_option set (operation_fields [''dataset'', ''frameFields''] node)
        = Some (set spec_field_components_db))"
proof -
  let ?five = "[''ftype'', ''subfield'', ''embeddedDocType'', ''path'', ''dbField'']"
  have "''dbField'' \<in> set ?five" and "''dbField'' \<notin> set spec_field_components"
    by (simp_all add: spec_field_components_def)
  then have a: "set ?five \<noteq> set spec_field_components"
    by (rule set_differs)
  have "''path'' \<in> set ?five" and "''path'' \<notin> set spec_field_components_db"
    by (simp_all add: spec_field_components_db_def)
  then have b: "set ?five \<noteq> set spec_field_components_db"
    by (rule set_differs)
  show ?thesis
    using a b
    by (simp only: operation_fields_sampleFields operation_fields_frameFields option.map
        option.inject not_False_eq_True simp_thms)
qed

text \<open>
  C3, amended. Each entry of \<open>sampleFields\<close> and of \<open>frameFields\<close> carries exactly five
  components, all of them scalar: \<open>ftype\<close>, \<open>subfield\<close>, \<open>embeddedDocType\<close>, \<open>path\<close>
  and \<open>dbField\<close>; the response type declares the same five.
\<close>

theorem schema_field_components:
  "operation_fields [''dataset'', ''sampleFields''] node
     = Some [''ftype'', ''subfield'', ''embeddedDocType'', ''path'', ''dbField'']
   \<and> operation_fields [''dataset'', ''frameFields''] node
     = Some [''ftype'', ''subfield'', ''embeddedDocType'', ''path'', ''dbField'']
   \<and> map_option (list_all is_scalar)
       (select_path [''dataset'', ''sampleFields'']
         (NormalizationOperation.selections (operation node))) = Some True
   \<and> map_option (list_all is_scalar)
       (select_path [''dataset'', ''frameFields'']
         (NormalizationOperation.selections (operation node))) = Some True
   \<and> type_fields [''dataset'', ''sampleFields''] DatasetQuery_data
     = Some [''ftype'', ''subfield'', ''embeddedDocType'', ''path'', ''dbField'']
   \<and> type_fields [''dataset'', ''frameFields''] DatasetQuery_data
     = Some [''ftype'', ''subfield'', ''embeddedDocType'', ''path'', ''dbField'']"
  by (simp add: reader_defs node_operation_selections binding_defs DatasetQuery_data_def)

text \<open>
  C4. An evaluation run and a brain-method run each select \<open>key\<close>, \<open>version\<close>,
  \<open>timestamp\<close>, \<open>viewStages\<close> and \<open>config\<close>; the evaluation config selects \<open>cls\<close>,
  \<open>predField\<close> and \<open>gtField\<close>, the brain-run config \<open>cls\<close>, \<open>embeddingsField\<close>,
  \<open>method\<close> and \<open>patchesField\<close>. The response type declares the same properties, none
  of them optional, so every record carries them.
\<close>

theorem run_records:
  "operation_fields [''dataset'', ''evaluations''] node
     = Some [''key'', ''version'', ''timestamp'', ''viewStages'', ''config'']
   \<and> operation_fields [''dataset'', ''evaluations'', ''config''] node
     = Some [''cls'', ''predField'', ''gtField'']
   \<and> operation_fields [''dataset'', ''brainMethods''] node
     = Some [''key'', ''version'', ''timestamp'', ''viewStages'', ''config'']
   \<and> operation_fields [''dataset'', ''brainMethods'', ''config''] node
     = Some [''cls'', ''embeddingsField'', ''method'', ''patchesField'']
   \<and> type_fields [''dataset'', ''evaluations''] DatasetQuery_data
     = Some [''key'', ''version'', ''timestamp'', ''viewStages'', ''config'']
   \<and> type_fields [''dataset'', ''evaluations'', ''config''] DatasetQuery_data
     = Some [''cls'', ''predField'', ''gtField'']
   \<and> type_fields [''dataset'', ''brainMethods''] DatasetQuery_data
     = Some [''key'', ''version'', ''timestamp'', ''viewStages'', ''config'']
   \<and> type_fields [''dataset'', ''brainMethods'', ''config''] DatasetQuery_data
     = Some [''cls'', ''embeddingsField'', ''method'', ''patchesField'']
   \<and> type_modifiers [''dataset'', ''evaluations''] DatasetQuery_data
     = Some [Readonly, Readonly, Readonly, Readonly, Readonly]
   \<and> type_modifiers [''dataset'', ''evaluations'', ''config''] DatasetQuery_data
     = Some [Readonly, Readonly, Readonly]
   \<and> type_modifiers [''dataset'', ''brainMethods''] DatasetQuery_data
     = Some [Readonly, Readonly, Readonly, Readonly, Readonly]
   \<and> type_modifiers [''dataset'', ''brainMethods'', ''config''] DatasetQuery_data
     = Some [Readonly, Readonly, Readonly, Readonly]"
  by (simp add: reader_defs node_operation_selections binding_defs DatasetQuery_data_def)




text \<open>
  C8. The fragment and the operation have the same selections and the same argument
  definitions, so the paths of fields the operation fetches are the paths the fragment
  reads.
\<close>

theorem fragment_operation_equivalent:
  "ReaderFragment.selections (fragment node)
     = NormalizationOperation.selections (operation node)
   \<and> ReaderFragment.argumentDefinitions (fragment node)
     = NormalizationOperation.argumentDefinitions (operation node)
   \<and> set (concat (map field_paths (ReaderFragment.selections (fragment node))))
     = set (concat (map field_paths (NormalizationOperation.selections (operation node))))
   \<and> fragment_fields path node = operation_fields path node"
  by (simp add: node_defs reader_defs)

text \<open>
  C9. \<open>sampleFields\<close> and \<open>frameFields\<close> have the same selection list, of \<open>ftype\<close>,
  \<open>subfield\<close>, \<open>embeddedDocType\<close>, \<open>path\<close> and \<open>dbField\<close>; the \<open>targets\<close> of
  \<open>maskTargets\<close> and \<open>defaultMaskTargets\<close> have the same selection list, of \<open>target\<close>
  and \<open>value\<close>.
\<close>

theorem shared_selection_lists:
  "select_path [''dataset'', ''sampleFields''] (NormalizationOperation.selections (operation node))
     = select_path [''dataset'', ''frameFields''] (NormalizationOperation.selections (operation node))
   \<and> operation_fields [''dataset'', ''sampleFields''] node
     = Some [''ftype'', ''subfield'', ''embeddedDocType'', ''path'', ''dbField'']
   \<and> select_path [''dataset'', ''maskTargets'', ''targets'']
       (NormalizationOperation.selections (operation node))
     = select_path [''dataset'', ''defaultMaskTargets'']
       (NormalizationOperation.selections (operation node))
   \<and> operation_fields [''dataset'', ''defaultMaskTargets''] node = Some [''target'', ''value'']
   \<and> map_option type_shape (type_path [''dataset'', ''sampleFields''] DatasetQuery_data)
     = map_option type_shape (type_path [''dataset'', ''frameFields''] DatasetQuery_data)
   \<and> map_option type_shape (type_path [''dataset'', ''maskTargets'', ''targets''] DatasetQuery_data)
     = map_option type_shape (type_path [''dataset'', ''defaultMaskTargets''] DatasetQuery_data)"
  by (simp add: reader_defs node_operation_selections binding_defs DatasetQuery_data_def)

section \<open>Properties of the group context\<close>

lemma hook_values_depth:
  "(k, v) \<in> set (hook_values d nearest e) \<Longrightarrow> d \<le> k \<and> (k = d \<longrightarrow> v = useGroupContext nearest)"
proof (induction e arbitrary: d nearest)
  case (Text s)
  then show ?case by simp
next
  case (Host tag cs)
  then show ?case by auto
next
  case (Provider w cs)
  then obtain c where "c \<in> set cs" and "(k, v) \<in> set (hook_values (Suc d) (Some w) c)"
    by auto
  with Provider.IH have "Suc d \<le> k" by blast
  then show ?case by simp
next
  case (Component c)
  from Component.prems
  have "(k, v) = (d, useGroupContext nearest)
      \<or> (k, v) \<in> set (hook_values d nearest (c (useGroupContext nearest)))"
    by simp
  then show ?case
  proof
    assume "(k, v) = (d, useGroupContext nearest)"
    then show ?thesis by simp
  next
    assume "(k, v) \<in> set (hook_values d nearest (c (useGroupContext nearest)))"
    then show ?thesis by (rule Component.IH [OF rangeI])
  qed
qed

lemma callbacks_differ: "inner_callback \<noteq> outer_callback"
proof
  assume "inner_callback = outer_callback"
  then have "inner_callback 0 0 = outer_callback 0 0" by simp
  then show False by (simp add: inner_callback_def outer_callback_def)
qed

text \<open>
  C5, as the claim states it, fails: a consumer below a second provider inside the first is
  a descendant of the first, and reads the callback of the second.
\<close>

theorem provided_callback_counterexample:
  "map (lookerRefCallback \<circ> snd) (hook_values 0 None nested_providers)
     = [outer_callback, inner_callback]
   \<and> inner_callback \<noteq> outer_callback"
  using callbacks_differ
  by (simp add: nested_providers_def GroupContextProvider_def consumer_def useGroupContext_def
      useContext_def)

text \<open>
  C5, amended. Rendering \<open>GroupContextProvider\<close> with the callback \<open>f\<close>, under any
  surrounding binding, every descendant component that has no other provider of the context
  between itself and this one gets from \<open>useGroupContext()\<close> a value whose
  \<open>lookerRefCallback\<close> is \<open>f\<close>.
\<close>

theorem provided_callback_reaches_consumers:
  assumes "(k, v) \<in> set (hook_values d nearest (GroupContextProvider props))"
    and "k = Suc d"
  shows "lookerRefCallback v = lookerRefCallback props"
proof -
  from assms(1) obtain c where "c \<in> set (children props)"
    and "(k, v) \<in> set (hook_values (Suc d) (Some \<lparr>lookerRefCallback = lookerRefCallback props\<rparr>) c)"
    by (auto simp: GroupContextProvider_def)
  with assms(2) have "v = useGroupContext (Some \<lparr>lookerRefCallback = lookerRefCallback props\<rparr>)"
    using hook_values_depth by blast
  then show ?thesis
    by (simp add: useGroupContext_def useContext_def)
qed

theorem provided_callback_reaches_consumers_witness:
  "(1, \<lparr>lookerRefCallback = outer_callback\<rparr>) \<in> set (hook_values 0 None nested_providers)
   \<and> lookerRefCallback \<lparr>lookerRefCallback = outer_callback\<rparr> 7 5 = (None, 6)"
proof -
  have m: "(1, \<lparr>lookerRefCallback = outer_callback\<rparr>)
      \<in> set (hook_values 0 None
          (GroupContextProvider
            \<lparr>lookerRefCallback = outer_callback,
             children =
               [consumer,
                GroupContextProvider \<lparr>lookerRefCallback = inner_callback, children = [consumer]\<rparr>]\<rparr>))"
    by (simp add: GroupContextProvider_def consumer_def useGroupContext_def useContext_def)
  have "lookerRefCallback \<lparr>lookerRefCallback = outer_callback\<rparr> = outer_callback"
    using provided_callback_reaches_consumers [OF m] by simp
  then show ?thesis
    using m by (simp add: nested_providers_def outer_callback_def)
qed

text \<open>
  C6. A component with no provider of the context above it gets the default value from
  \<open>useGroupContext()\<close>, and the callback of the default value returns \<open>undefined\<close> and
  leaves every state as it is, for every looker.
\<close>

theorem default_callback_noop:
  assumes "(0, v) \<in> set (hook_values 0 None e)"
  shows "v = defaultOptions \<and> lookerRefCallback v looker s = (None, s)"
proof -
  from assms have "v = useGroupContext None"
    using hook_values_depth by blast
  then show ?thesis
    by (simp add: useGroupContext_def useContext_def groupContext_def createContext_def
        defaultOptions_def)
qed

theorem default_callback_noop_witness:
  "(0, defaultOptions) \<in> set (hook_values 0 None no_provider)
   \<and> lookerRefCallback (defaultOptions :: (nat, int, unit) GroupContext) 7 5 = (None, 5)"
proof -
  have m: "(0, defaultOptions) \<in> set (hook_values 0 None no_provider)"
    by (simp add: no_provider_def consumer_def useGroupContext_def useContext_def
        groupContext_def createContext_def)
  show ?thesis
    using m default_callback_noop [OF m, of 7 5] by simp
qed

text \<open>
  C10. \<open>GroupContextProvider\<close> is the provider element with the children of the props,
  unchanged, and with a context value whose one field \<open>lookerRefCallback\<close> is the prop of
  that name; rendering it gives what its children render under that value, with no node
  added; and no other prop is read: props that differ in further fields only give the same
  element.
\<close>

theorem GroupContextProvider_frame:
  "provider_parts (GroupContextProvider props)
     = Some (\<lparr>lookerRefCallback = lookerRefCallback props\<rparr>, children props)
   \<and> render nearest (GroupContextProvider props)
     = concat (map (render (Some \<lparr>lookerRefCallback = lookerRefCallback props\<rparr>)) (children props))
   \<and> GroupContextProvider (props\<lparr>GroupContextProviderProps.more := z\<rparr>)
     = GroupContextProvider props"
  by (simp add: GroupContextProvider_def)

end
